theory Spec2Isabelle
  imports Main
begin

section \<open>Order lifecycle, inventory and invoices of the storefront API\<close>

text \<open>
  The development embeds the Express handlers of \<^verbatim>\<open>server/routes/orders.js\<close> and the
  invoice generator of \<^verbatim>\<open>server/routes/admin.js\<close>. A handler is a function from the
  request (route parameter, body, authenticated user) and the database to the JSON reply
  and the database afterwards. Every \<^verbatim>\<open>return res.status(c).json(...)\<close> is a value of
  \<open>failure\<close>; a \<^verbatim>\<open>save()\<close> is an update of the store.

  Modelling conventions.
  \<^item> JavaScript numbers that count things or hold amounts are integers.
  \<^item> A string field that a request may omit is the empty string when every use of it in
    the source goes through \<^verbatim>\<open>||\<close> or a truthiness test (both treat \<^verbatim>\<open>undefined\<close> and
    \<^verbatim>\<open>''\<close> alike); otherwise it is an \<open>option\<close>, \<open>None\<close> being \<^verbatim>\<open>undefined\<close>.
  \<^item> The Mongoose collections are finite maps from the document id to the document;
    the invoice collection is a list in insertion order, since \<^verbatim>\<open>findOne\<close> and
    \<^verbatim>\<open>countDocuments\<close> range over all of it.
  \<^item> The middleware \<^verbatim>\<open>requireAuth\<close>/\<^verbatim>\<open>requireAdmin\<close> and the e-mail service live in
    modules outside these sources. A handler is modelled from the point where its
    middleware has admitted the request; an e-mail that the handler sends is recorded in
    an outbox.
  \<^item> A rejected promise of the database driver and an exception thrown inside a handler
    end in the handler's \<^verbatim>\<open>catch\<close> and the reply 500. The model covers the runs in which
    the store answers and the fields of the request have the types given here.
\<close>

subsection \<open>JavaScript helpers\<close>

text \<open>\<^verbatim>\<open>x || d\<close> on a number that may be missing: \<^verbatim>\<open>undefined\<close> and \<^verbatim>\<open>0\<close> are falsy.\<close>

definition or_num :: "int option \<Rightarrow> int \<Rightarrow> int" where
  "or_num x d = (case x of None \<Rightarrow> d | Some v \<Rightarrow> if v = 0 then d else v)"

text \<open>Truthiness of a string that may be missing, and \<^verbatim>\<open>a || b\<close> on two of them.\<close>

definition truthy :: "string option \<Rightarrow> bool" where
  "truthy x = (case x of None \<Rightarrow> False | Some s \<Rightarrow> s \<noteq> [])"

definition or_opt :: "string option \<Rightarrow> string option \<Rightarrow> string option" where
  "or_opt a b = (if truthy a then a else b)"

text \<open>\<^verbatim>\<open>a || b\<close> on strings where a missing one is the empty string.\<close>

definition or_str :: "string \<Rightarrow> string \<Rightarrow> string" where
  "or_str a b = (if a \<noteq> [] then a else b)"

text \<open>
  \<^verbatim>\<open>String.prototype.trim\<close>: the white space and line terminators of ECMAScript that fit
  in one Latin-1 code unit (TAB, LF, VT, FF, CR, SP, NBSP).
\<close>

definition is_ws :: "char \<Rightarrow> bool" where
  "is_ws c = ((of_char c :: nat) \<in> {9, 10, 11, 12, 13, 32, 160})"

definition trim :: "string \<Rightarrow> string" where
  "trim s = rev (dropWhile is_ws (rev (dropWhile is_ws s)))"

text \<open>\<^verbatim>\<open>String(order.userId)\<close>: a missing reference prints as \<^verbatim>\<open>undefined\<close>.\<close>

definition String_id :: "string option \<Rightarrow> string" where
  "String_id x = (case x of None \<Rightarrow> ''undefined'' | Some s \<Rightarrow> s)"

subsection \<open>Documents\<close>

record sizeEntry =
  code :: string
  size_qty :: int

record product =
  title :: string
  trackInventoryBySize :: bool
  sizeInventory :: "sizeEntry list option"
  stock :: int

text \<open>
  A line item of the request body. \<open>item_id\<close> is \<^verbatim>\<open>item.id\<close>, \<open>item_size\<close> is
  \<^verbatim>\<open>item.size\<close>.
\<close>

record item =
  item_id :: "string option"
  productId :: "string option"
  item_title :: string
  price :: "int option"
  qty :: "int option"
  item_size :: "string option"

record upiInfo =
  payerName :: string
  txnId :: string

text \<open>
  An order document. \<open>discount\<close>, \<open>shipping\<close> and \<open>tax\<close> are the fields the invoice
  renderer reads (\<^verbatim>\<open>order.discount\<close>, \<^verbatim>\<open>order.tax\<close>, \<^verbatim>\<open>order.shipping\<close>); \<open>None\<close> is a field
  that was never assigned.
\<close>

record order =
  userId :: "string option"
  name :: string
  phone :: string
  address :: string
  paymentMethod :: string
  city :: string
  state :: string
  pincode :: string
  items :: "item list"
  order_total :: int
  status :: string
  upi :: "upiInfo option"
  discount :: "int option"
  shipping :: "int option"
  tax :: "int option"
  returnStatus :: "string option"
  returnReason :: "string option"
  rejectionReason :: "string option"
  cancellationReason :: "string option"
  trackingNumber :: "string option"
  invoiceId :: "nat option"

record user =
  user_id :: string
  role :: string
  email :: string

record invoice =
  inv_id :: nat
  inv_orderId :: string
  invoiceNo :: string
  issuedAt :: int
  inv_status :: string
  createdAt :: int

text \<open>The calls of the e-mail service, in the order the handlers make them.\<close>

datatype mail =
  StatusUpdateEmail string string string
  | ReturnApprovalEmail string string "string option" "string option"

record db =
  products :: "string \<rightharpoonup> product"
  orders :: "string \<rightharpoonup> order"
  invoices :: "invoice list"
  users :: "string \<rightharpoonup> user"
  outbox :: "mail list"

text \<open>
  A reply with \<^verbatim>\<open>ok: false\<close>: the HTTP status and the message, and for the stock
  conflict (409) the item id and the available quantity as well.
\<close>

datatype failure =
  Rejected nat string
  | StockConflict string "string option" int

text \<open>
  \<^verbatim>\<open>populate('userId')\<close> followed by \<^verbatim>\<open>order.userId && order.userId.email\<close>: the address
  to write to, if the order has a user, the user exists and has an e-mail address.
\<close>

definition recipient :: "db \<Rightarrow> order \<Rightarrow> string option" where
  "recipient st ord =
     (case userId ord of
        None \<Rightarrow> None
      | Some u \<Rightarrow>
          (case users st u of
             None \<Rightarrow> None
           | Some usr \<Rightarrow> if email usr \<noteq> [] then Some (email usr) else None))"

definition save_order :: "string \<Rightarrow> order \<Rightarrow> db \<Rightarrow> db" where
  "save_order oid ord st = st\<lparr>orders := (orders st)(oid \<mapsto> ord)\<rparr>"

definition send :: "mail \<Rightarrow> db \<Rightarrow> db" where
  "send m st = st\<lparr>outbox := outbox st @ [m]\<rparr>"

subsection \<open>Return requests\<close>

text \<open>
  \<^verbatim>\<open>POST /:id/request-return\<close>. The checks run in the order of the source: the reason,
  the order, the owner, the status.
\<close>

definition reason_given :: "string option \<Rightarrow> bool" where
  "reason_given reason = (case reason of None \<Rightarrow> False | Some r \<Rightarrow> r \<noteq> [] \<and> trim r \<noteq> [])"

definition requestReturn ::
  "user \<Rightarrow> string \<Rightarrow> string option \<Rightarrow> db \<Rightarrow> (failure + order) \<times> db" where
  "requestReturn actor oid reason st =
     (case reason of
        None \<Rightarrow> (Inl (Rejected 400 ''Return reason is required''), st)
      | Some r \<Rightarrow>
          if r = [] \<or> trim r = [] then
            (Inl (Rejected 400 ''Return reason is required''), st)
          else
            (case orders st oid of
               None \<Rightarrow> (Inl (Rejected 404 ''Order not found''), st)
             | Some ord \<Rightarrow>
                 if String_id (userId ord) \<noteq> user_id actor then
                   (Inl (Rejected 403 ''Forbidden''), st)
                 else if status ord \<noteq> ''delivered'' then
                   (Inl (Rejected 400 ''Return can only be requested for delivered orders''), st)
                 else
                   (let ord' = ord\<lparr>returnReason := Some (trim r),
                                    returnStatus := Some ''Pending''\<rparr>
                    in (Inr ord', save_order oid ord' st))))"

text \<open>\<^verbatim>\<open>POST /:id/approve-return\<close>.\<close>

definition approveReturn :: "string \<Rightarrow> db \<Rightarrow> (failure + order) \<times> db" where
  "approveReturn oid st =
     (case orders st oid of
        None \<Rightarrow> (Inl (Rejected 404 ''Order not found''), st)
      | Some ord \<Rightarrow>
          if returnStatus ord \<noteq> Some ''Pending'' then
            (Inl (Rejected 400 ''Return request is not pending''), st)
          else
            (let ord' = ord\<lparr>returnStatus := Some ''Approved''\<rparr>;
                 st' = save_order oid ord' st;
                 st'' = (case recipient st ord of
                           None \<Rightarrow> st'
                         | Some to \<Rightarrow>
                             send (ReturnApprovalEmail oid to (Some ''Approved'') None) st')
             in (Inr ord', st'')))"

text \<open>\<^verbatim>\<open>POST /:id/reject-return\<close>.\<close>

definition rejectReturn :: "string \<Rightarrow> string option \<Rightarrow> db \<Rightarrow> (failure + order) \<times> db" where
  "rejectReturn oid reason st =
     (case orders st oid of
        None \<Rightarrow> (Inl (Rejected 404 ''Order not found''), st)
      | Some ord \<Rightarrow>
          if returnStatus ord \<noteq> Some ''Pending'' then
            (Inl (Rejected 400 ''Return request is not pending''), st)
          else
            (let ord0 = ord\<lparr>returnStatus := Some ''Rejected''\<rparr>;
                 ord' = (if truthy reason then ord0\<lparr>rejectionReason := reason\<rparr> else ord0);
                 st' = save_order oid ord' st;
                 st'' = (case recipient st ord of
                           None \<Rightarrow> st'
                         | Some to \<Rightarrow>
                             send (ReturnApprovalEmail oid to (Some ''Rejected'') reason) st')
             in (Inr ord', st'')))"

subsection \<open>Status changes and cancellation\<close>

definition ALLOWED_STATUSES :: "string list" where
  "ALLOWED_STATUSES = [''pending'', ''paid'', ''shipped'', ''delivered'', ''cancelled'']"

text \<open>
  The notification after a status change (\<^verbatim>\<open>PUT /:id/status\<close> and
  \<^verbatim>\<open>PUT /:id/admin-update\<close>): sent when the status differs from the previous one, the
  order's user has an address, and the new status is shipped or delivered.
\<close>

definition notify_status :: "string \<Rightarrow> order \<Rightarrow> string \<Rightarrow> string \<Rightarrow> db \<Rightarrow> db \<Rightarrow> db" where
  "notify_status oid ord s previousStatus st0 st =
     (if s \<noteq> previousStatus then
        (case recipient st0 ord of
           None \<Rightarrow> st
         | Some to \<Rightarrow>
             if s = ''shipped'' \<or> s = ''delivered'' then send (StatusUpdateEmail oid to s) st
             else st)
      else st)"

text \<open>
  \<^verbatim>\<open>PUT /:id/status\<close>. The status of the body is a string, or \<open>None\<close> when the body
  has none; a falsy one (missing or empty) is reported as missing. The body is checked
  before the order is looked up.
\<close>

definition setStatus :: "string \<Rightarrow> string option \<Rightarrow> db \<Rightarrow> (failure + order) \<times> db" where
  "setStatus oid new_status st =
     (if \<not> truthy new_status then (Inl (Rejected 400 ''Missing status''), st)
      else
        (case new_status of
           None \<Rightarrow> (Inl (Rejected 400 ''Missing status''), st)
         | Some s \<Rightarrow>
             if s \<notin> set ALLOWED_STATUSES then (Inl (Rejected 400 ''Invalid status''), st)
             else
               (case orders st oid of
                  None \<Rightarrow> (Inl (Rejected 404 ''Not found''), st)
                | Some ord \<Rightarrow>
                    (let previousStatus = status ord;
                         ord' = ord\<lparr>status := s\<rparr>;
                         st' = save_order oid ord' st
                     in (Inr ord', notify_status oid ord s previousStatus st st')))))"

text \<open>\<^verbatim>\<open>POST /:id/cancel\<close>.\<close>

definition cancellableStatuses :: "string list" where
  "cancellableStatuses = [''pending'', ''cod_pending'', ''pending_verification'']"

definition cancel :: "user \<Rightarrow> string \<Rightarrow> string option \<Rightarrow> db \<Rightarrow> (failure + order) \<times> db" where
  "cancel actor oid reason st =
     (case orders st oid of
        None \<Rightarrow> (Inl (Rejected 404 ''Order not found''), st)
      | Some ord \<Rightarrow>
          if String_id (userId ord) \<noteq> user_id actor \<and> role actor \<noteq> ''admin'' then
            (Inl (Rejected 403 ''Forbidden''), st)
          else if status ord \<notin> set cancellableStatuses then
            (Inl (Rejected 400 ''Order cannot be cancelled in current status''), st)
          else
            (let ord0 = ord\<lparr>status := ''cancelled''\<rparr>;
                 ord' = (if truthy reason then ord0\<lparr>cancellationReason := reason\<rparr> else ord0)
             in (Inr ord', save_order oid ord' st)))"

text \<open>
  \<^verbatim>\<open>PUT /:id/admin-update\<close>: status, tracking number and return status, each applied
  when the body supplies it.
\<close>

definition RETURN_STATUSES :: "string list" where
  "RETURN_STATUSES = [''None'', ''Pending'', ''Approved'', ''Rejected'']"

definition adminUpdate ::
  "string \<Rightarrow> string option \<Rightarrow> string option \<Rightarrow> string option \<Rightarrow> db \<Rightarrow> (failure + order) \<times> db" where
  "adminUpdate oid new_status tracking new_return st =
     (case orders st oid of
        None \<Rightarrow> (Inl (Rejected 404 ''Order not found''), st)
      | Some ord \<Rightarrow>
          (let previousStatus = status ord;
               ord1 = (if truthy new_status \<and> String_id new_status \<in> set ALLOWED_STATUSES
                       then ord\<lparr>status := String_id new_status\<rparr> else ord);
               ord2 = (if truthy tracking
                       then ord1\<lparr>trackingNumber := Some (trim (String_id tracking))\<rparr> else ord1);
               ord3 = (if truthy new_return \<and> String_id new_return \<in> set RETURN_STATUSES
                       then ord2\<lparr>returnStatus := new_return\<rparr> else ord2);
               st1 = save_order oid ord3 st;
               st2 = (if truthy new_status
                      then notify_status oid ord (String_id new_status) previousStatus st st1
                      else st1);
               st3 = (if new_return = Some ''Approved'' \<and> returnStatus ord3 = Some ''Approved''
                      then (case recipient st ord of
                              None \<Rightarrow> st2
                            | Some to \<Rightarrow> send (ReturnApprovalEmail oid to None None) st2)
                      else st2)
           in (Inr ord3, st3)))"

subsection \<open>Inventory\<close>

text \<open>\<^verbatim>\<open>Array.prototype.findIndex\<close>; \<open>None\<close> is the result \<^verbatim>\<open>-1\<close>.\<close>

fun findIndex :: "('a \<Rightarrow> bool) \<Rightarrow> 'a list \<Rightarrow> nat option" where
  "findIndex P [] = None"
| "findIndex P (x # xs) =
     (if P x then Some 0 else (case findIndex P xs of None \<Rightarrow> None | Some i \<Rightarrow> Some (Suc i)))"

text \<open>\<^verbatim>\<open>Number(item.qty || 1)\<close>: a missing or zero quantity requests one unit.\<close>

definition requestedQty :: "item \<Rightarrow> int" where
  "requestedQty it = or_num (qty it) 1"

text \<open>
  One round of the loop over the line items (orders.js, lines 45 to 88): the product is
  looked up by \<^verbatim>\<open>item.id || item.productId\<close>; a product with per-size tracking is
  decremented at the entry of the item's size, a product without it at its scalar stock.
  \<open>Inl\<close> is the 409 reply, \<open>Inr\<close> the product collection after \<^verbatim>\<open>product.save()\<close>.
\<close>

definition reserve :: "(string \<rightharpoonup> product) \<Rightarrow> item \<Rightarrow> failure + (string \<rightharpoonup> product)" where
  "reserve ps it =
     (let pid = or_opt (item_id it) (productId it) in
      if \<not> truthy pid then Inr ps
      else
        (case ps (String_id pid) of
           None \<Rightarrow> Inr ps
         | Some p \<Rightarrow>
             if trackInventoryBySize p \<and> truthy (item_size it) \<and> sizeInventory p \<noteq> None then
               (case sizeInventory p of
                  None \<Rightarrow> Inr ps
                | Some sizes \<Rightarrow>
                    (case findIndex (\<lambda>s. code s = String_id (item_size it)) sizes of
                       None \<Rightarrow> Inr ps
                     | Some sizeIdx \<Rightarrow>
                         (let currentQty = size_qty (sizes ! sizeIdx) in
                          if currentQty < requestedQty it then
                            Inl (StockConflict
                                  (''Insufficient stock for '' @ title p @ '' size ''
                                     @ String_id (item_size it))
                                  pid currentQty)
                          else
                            Inr (ps(String_id pid \<mapsto> p\<lparr>sizeInventory :=
                                  Some (sizes[sizeIdx := (sizes ! sizeIdx)
                                     \<lparr>size_qty := currentQty - requestedQty it\<rparr>])\<rparr>)))))
             else if \<not> trackInventoryBySize p then
               (let currentStock = or_num (Some (stock p)) 0 in
                if currentStock < requestedQty it then
                  Inl (StockConflict (''Insufficient stock for '' @ title p) pid currentStock)
                else Inr (ps(String_id pid \<mapsto> p\<lparr>stock := stock p - requestedQty it\<rparr>)))
             else Inr ps))"

text \<open>
  The loop: it stops at the first 409; the products saved by the rounds before it stay
  as they were saved.
\<close>

fun decrement_inventory ::
  "(string \<rightharpoonup> product) \<Rightarrow> item list \<Rightarrow> failure option \<times> (string \<rightharpoonup> product)" where
  "decrement_inventory ps [] = (None, ps)"
| "decrement_inventory ps (it # its) =
     (case reserve ps it of
        Inl e \<Rightarrow> (Some e, ps)
      | Inr ps' \<Rightarrow> decrement_inventory ps' its)"

subsection \<open>Order creation\<close>

record customer =
  c_name :: string
  c_phone :: string
  c_address :: string
  c_city :: string
  c_state :: string
  c_pincode :: string

text \<open>
  The body of \<^verbatim>\<open>POST /\<close>. \<open>b_total\<close> is \<open>Some n\<close> when \<^verbatim>\<open>typeof body.total === 'number'\<close>,
  \<open>b_status\<close> is \<open>Some s\<close> when \<^verbatim>\<open>typeof body.status === 'string'\<close>.
\<close>

record body =
  b_name :: string
  b_phone :: string
  b_address :: string
  b_city :: string
  b_state :: string
  b_pincode :: string
  b_customer :: "customer option"
  b_items :: "item list"
  b_total :: "int option"
  b_paymentMethod :: string
  b_payment :: string
  b_status :: "string option"
  b_upi :: "upiInfo option"

text \<open>\<^verbatim>\<open>body.f || body.customer?.f || ''\<close>.\<close>

definition field_or_customer :: "body \<Rightarrow> (body \<Rightarrow> string) \<Rightarrow> (customer \<Rightarrow> string) \<Rightarrow> string" where
  "field_or_customer b f g =
     or_str (f b) (or_str (case b_customer b of None \<Rightarrow> [] | Some c \<Rightarrow> g c) [])"

text \<open>\<^verbatim>\<open>/^\\d{4,8}$/.test(String(pincode))\<close>.\<close>

definition is_digit :: "char \<Rightarrow> bool" where
  "is_digit c = (48 \<le> (of_char c :: nat) \<and> (of_char c :: nat) \<le> 57)"

definition pinOk :: "string \<Rightarrow> bool" where
  "pinOk s = (4 \<le> length s \<and> length s \<le> 8 \<and> list_all is_digit s)"

text \<open>
  \<^verbatim>\<open>items.reduce((sum, it) => sum + Number(it.price || 0) * Number(it.qty || 0), 0)\<close>.
\<close>

definition computed :: "item list \<Rightarrow> int" where
  "computed its = foldl (\<lambda>sum it. sum + or_num (price it) 0 * or_num (qty it) 0) 0 its"

text \<open>
  \<^verbatim>\<open>typeof body.total === 'number' && body.total > 0 ? body.total : computed\<close>.
\<close>

definition total_of :: "body \<Rightarrow> int" where
  "total_of b =
     (case b_total b of
        None \<Rightarrow> computed (b_items b)
      | Some t \<Rightarrow> if t > 0 then t else computed (b_items b))"

text \<open>The three validations that precede the computation; \<open>None\<close> lets the request pass.\<close>

definition validate :: "body \<Rightarrow> failure option" where
  "validate b =
     (let city = field_or_customer b b_city c_city;
          state = field_or_customer b b_state c_state;
          pincode = field_or_customer b b_pincode c_pincode
      in if b_items b = [] then Some (Rejected 400 ''No items'')
         else if city = [] \<or> state = [] \<or> pincode = [] then
           Some (Rejected 400 ''City, state and pincode are required'')
         else if \<not> pinOk pincode then Some (Rejected 400 ''Invalid pincode'')
         else None)"

text \<open>
  The document passed to \<^verbatim>\<open>new Order({...})\<close> (lines 90 to 104).

  Modelled from the spec: the Order schema (\<^verbatim>\<open>models/Order.js\<close>) is not among the sources,
  and the specification gives an order no default discount, shipping or tax. The fields
  that the call does not pass are therefore unassigned in the new document.
\<close>

definition new_order :: "user option \<Rightarrow> body \<Rightarrow> order" where
  "new_order actor b =
     (let paymentMethod = or_str (b_paymentMethod b) (or_str (b_payment b) ''COD'')
      in \<lparr>userId = map_option user_id actor,
          name = field_or_customer b b_name c_name,
          phone = field_or_customer b b_phone c_phone,
          address = field_or_customer b b_address c_address,
          paymentMethod = paymentMethod,
          city = field_or_customer b b_city c_city,
          state = field_or_customer b b_state c_state,
          pincode = field_or_customer b b_pincode c_pincode,
          items = b_items b,
          order_total = total_of b,
          status = (case b_status b of
                      None \<Rightarrow> ''pending''
                    | Some s \<Rightarrow> if s \<in> set ALLOWED_STATUSES then s else ''pending''),
          upi = (if paymentMethod = ''UPI'' then b_upi b else None),
          discount = None, shipping = None, tax = None,
          returnStatus = None, returnReason = None, rejectionReason = None,
          cancellationReason = None, trackingNumber = None, invoiceId = None\<rparr>)"

text \<open>
  \<^verbatim>\<open>POST /\<close>. \<open>new_id\<close> is the id that Mongoose gives the new document. The products
  saved inside the loop are part of the database after the request whether or not the
  loop ends in a 409; the order is saved only after the whole loop.
\<close>

definition createOrder :: "user option \<Rightarrow> string \<Rightarrow> body \<Rightarrow> db \<Rightarrow> (failure + order) \<times> db" where
  "createOrder actor new_id b st =
     (case validate b of
        Some e \<Rightarrow> (Inl e, st)
      | None \<Rightarrow>
          (case decrement_inventory (products st) (b_items b) of
             (Some e, ps) \<Rightarrow> (Inl e, st\<lparr>products := ps\<rparr>)
           | (None, ps) \<Rightarrow>
               (let doc = new_order actor b
                in (Inr doc, save_order new_id doc (st\<lparr>products := ps\<rparr>)))))"

subsection \<open>Invoices\<close>

text \<open>
  What the handler reads from the clock: \<open>isoString\<close> is \<^verbatim>\<open>now.toISOString()\<close> (the
  date in UTC), \<open>dayStart\<close> and \<open>nextDayStart\<close> are the times of
  \<^verbatim>\<open>new Date(now.getFullYear(), now.getMonth(), now.getDate())\<close> and of the same with
  \<^verbatim>\<open>now.getDate() + 1\<close> (the bounds of the day in the server's time zone), and \<open>now_ms\<close>
  is the time stamp the saved document gets.
\<close>

record clock =
  now_ms :: int
  isoString :: string
  dayStart :: int
  nextDayStart :: int

definition digit_char :: "nat \<Rightarrow> char" where
  "digit_char d = char_of (48 + d)"

text \<open>\<^verbatim>\<open>String(n)\<close> for a natural number.\<close>

fun String_nat :: "nat \<Rightarrow> string" where
  "String_nat n = (if n < 10 then [digit_char n] else String_nat (n div 10) @ [digit_char (n mod 10)])"

declare String_nat.simps [simp del]

text \<open>\<^verbatim>\<open>s.padStart(n, '0')\<close>.\<close>

definition padStart :: "nat \<Rightarrow> string \<Rightarrow> string" where
  "padStart n s = replicate (n - length s) (CHR ''0'') @ s"

text \<open>\<^verbatim>\<open>now.toISOString().slice(0, 10).replace(/-/g, '')\<close>.\<close>

definition dateStr :: "clock \<Rightarrow> string" where
  "dateStr c = filter (\<lambda>ch. ch \<noteq> CHR ''-'') (take 10 (isoString c))"

definition countToday :: "clock \<Rightarrow> invoice list \<Rightarrow> nat" where
  "countToday c invs =
     length (filter (\<lambda>i. dayStart c \<le> createdAt i \<and> createdAt i < nextDayStart c) invs)"

definition next_invoiceNo :: "clock \<Rightarrow> invoice list \<Rightarrow> string" where
  "next_invoiceNo c invs =
     ''INV-'' @ dateStr c @ ''-'' @ padStart 4 (String_nat (countToday c invs + 1))"

text \<open>
  \<^verbatim>\<open>POST /invoices/generate\<close>. The reply carries the id and the number of the invoice.
  The id of a new invoice is its position in the collection (documents are never removed
  from it).
\<close>

definition generateInvoice ::
  "clock \<Rightarrow> string option \<Rightarrow> db \<Rightarrow> (failure + nat \<times> string) \<times> db" where
  "generateInvoice c orderId st =
     (if \<not> truthy orderId then (Inl (Rejected 400 ''Missing orderId''), st)
      else
        (case orders st (String_id orderId) of
           None \<Rightarrow> (Inl (Rejected 404 ''Order not found''), st)
         | Some ord \<Rightarrow>
             (case find (\<lambda>i. inv_orderId i = String_id orderId) (invoices st) of
                Some doc \<Rightarrow> (Inr (inv_id doc, invoiceNo doc), st)
              | None \<Rightarrow>
                  (let doc = \<lparr>inv_id = length (invoices st),
                              inv_orderId = String_id orderId,
                              invoiceNo = next_invoiceNo c (invoices st),
                              issuedAt = now_ms c,
                              inv_status = ''issued'',
                              createdAt = now_ms c\<rparr>;
                       st' = st\<lparr>invoices := invoices st @ [doc]\<rparr>;
                       st'' = save_order (String_id orderId) (ord\<lparr>invoiceId := Some (inv_id doc)\<rparr>) st'
                   in (Inr (inv_id doc, invoiceNo doc), st'')))))"

subsection \<open>Notions used to state the properties\<close>

text \<open>The comparison \<^verbatim>\<open>String(order.userId) === String(req.user._id)\<close> of the handlers.\<close>

definition owns :: "user \<Rightarrow> order \<Rightarrow> bool" where
  "owns actor ord = (String_id (userId ord) = user_id actor)"

text \<open>The product a line item refers to: \<^verbatim>\<open>item.id || item.productId\<close>.\<close>

definition item_key :: "item \<Rightarrow> string option" where
  "item_key it = or_opt (item_id it) (productId it)"

definition names :: "item \<Rightarrow> string \<Rightarrow> bool" where
  "names it k = (truthy (item_key it) \<and> String_id (item_key it) = k)"

text \<open>
  The units the loop requests of product \<open>k\<close> over a list of items, counted as the loop
  counts them (\<open>requestedQty\<close>).
\<close>

definition requested_for :: "string \<Rightarrow> item list \<Rightarrow> int" where
  "requested_for k its = sum_list (map requestedQty (filter (\<lambda>it. names it k) its))"

text \<open>
  The sum of the quantities of product \<open>k\<close> across the items, as the items state them
  (an item without a quantity adds nothing).
\<close>

definition qty_sum :: "string \<Rightarrow> item list \<Rightarrow> int" where
  "qty_sum k its = sum_list (map (\<lambda>it. or_num (qty it) 0) (filter (\<lambda>it. names it k) its))"

text \<open>The scalar stock of product \<open>k\<close>, if \<open>k\<close> exists and is not tracked by size.\<close>

definition scalar_stock :: "(string \<rightharpoonup> product) \<Rightarrow> string \<Rightarrow> int option" where
  "scalar_stock ps k =
     (case ps k of
        None \<Rightarrow> None
      | Some p \<Rightarrow> if trackInventoryBySize p then None else Some (stock p))"

text \<open>
  The total as the specification words it, over the order's own line items and
  financial fields: the sum of price times quantity, minus the discount, plus shipping
  and tax. An amount that the order does not carry counts as zero, as it does where the
  invoice is rendered (\<^verbatim>\<open>order.discount ? ... : ''\<close>).
\<close>

definition stated_total :: "order \<Rightarrow> int" where
  "stated_total ord =
     sum_list (map (\<lambda>it. or_num (price it) 0 * or_num (qty it) 0) (items ord))
       - or_num (discount ord) 0 + or_num (shipping ord) 0 + or_num (tax ord) 0"

text \<open>
  Modelled from the platform: \<^verbatim>\<open>Date\<close> of JavaScript, for a server whose time zone is a
  fixed number of minutes east of UTC (no daylight saving). A time is a number of
  milliseconds since 1970-01-01T00:00:00Z.

  \<open>civil_from_days\<close> is the date (year, month from 1, day) of a day number counted from
  1970-01-01 in the proleptic Gregorian calendar.
\<close>

definition civil_from_days :: "int \<Rightarrow> int \<times> int \<times> int" where
  "civil_from_days z0 =
     (let z = z0 + 719468;
          era = z div 146097;
          doe = z - era * 146097;
          yoe = (doe - doe div 1460 + doe div 36524 - doe div 146096) div 365;
          doy = doe - (365 * yoe + yoe div 4 - yoe div 100);
          mp = (5 * doy + 2) div 153;
          d = doy - (153 * mp + 2) div 5 + 1;
          m = (if mp < 10 then mp + 3 else mp - 9);
          y = yoe + era * 400 + (if m \<le> 2 then 1 else 0)
      in (y, m, d))"

definition pad_int :: "nat \<Rightarrow> int \<Rightarrow> string" where
  "pad_int n x = padStart n (String_nat (nat x))"

text \<open>
  \<^verbatim>\<open>Date.prototype.toISOString\<close>: the date and the time of day in UTC; a year outside 0 to
  9999 is printed with a sign and six digits.
\<close>

definition toISOString :: "int \<Rightarrow> string" where
  "toISOString ms =
     (case civil_from_days (ms div 86400000) of
        (y, m, d) \<Rightarrow>
          (let t = ms mod 86400000 in
           (if 0 \<le> y \<and> y \<le> 9999 then pad_int 4 y
            else (if y < 0 then ''-'' else ''+'') @ pad_int 6 (abs y))
           @ ''-'' @ pad_int 2 m @ ''-'' @ pad_int 2 d
           @ ''T'' @ pad_int 2 (t div 3600000) @ '':'' @ pad_int 2 (t div 60000 mod 60)
           @ '':'' @ pad_int 2 (t div 1000 mod 60) @ ''.'' @ pad_int 3 (t mod 1000) @ ''Z''))"

text \<open>
  The clock that the invoice handler reads at the time \<open>ms\<close> on a server \<open>tz\<close> minutes
  east of UTC: \<^verbatim>\<open>new Date(now.getFullYear(), now.getMonth(), now.getDate())\<close> is the local
  midnight before \<open>ms\<close>, and the same with \<^verbatim>\<open>now.getDate() + 1\<close> the local midnight after.
\<close>

definition clock_at :: "int \<Rightarrow> int \<Rightarrow> clock" where
  "clock_at tz ms =
     \<lparr>now_ms = ms,
      isoString = toISOString ms,
      dayStart = (ms + tz * 60000) div 86400000 * 86400000 - tz * 60000,
      nextDayStart = (ms + tz * 60000) div 86400000 * 86400000 - tz * 60000 + 86400000\<rparr>"

text \<open>
  The calendar day of a time, written as in an invoice number: in UTC, and on a server
  \<open>tz\<close> minutes east of UTC.
\<close>

definition utc_day :: "int \<Rightarrow> string" where
  "utc_day ms = filter (\<lambda>ch. ch \<noteq> CHR ''-'') (take 10 (toISOString ms))"

definition local_day :: "int \<Rightarrow> int \<Rightarrow> string" where
  "local_day tz ms = utc_day (ms + tz * 60000)"

text \<open>The number of invoices issued on the calendar day \<open>d\<close> (in UTC).\<close>

definition issued_on :: "string \<Rightarrow> invoice list \<Rightarrow> nat" where
  "issued_on d invs = length (filter (\<lambda>i. utc_day (createdAt i) = d) invs)"

subsection \<open>A small shop\<close>

definition alice :: user where
  "alice = \<lparr>user_id = ''u1'', role = ''user'', email = ''alice@example.com''\<rparr>"

definition bob :: user where
  "bob = \<lparr>user_id = ''u2'', role = ''user'', email = ''bob@example.com''\<rparr>"

definition root :: user where
  "root = \<lparr>user_id = ''u0'', role = ''admin'', email = ''root@example.com''\<rparr>"

definition shirt :: item where
  "shirt = \<lparr>item_id = Some ''p1'', productId = None, item_title = ''Shirt'',
            price = Some 100, qty = Some 3, item_size = None\<rparr>"

definition cap :: item where
  "cap = \<lparr>item_id = None, productId = Some ''p2'', item_title = ''Cap'',
          price = Some 50, qty = Some 1, item_size = None\<rparr>"

definition order1 :: order where
  "order1 = \<lparr>userId = Some ''u1'', name = ''Alice'', phone = ''5550100'',
     address = ''1 Main Road'', paymentMethod = ''COD'', city = ''Pune'', state = ''MH'',
     pincode = ''411001'', items = [shirt, cap], order_total = 350, status = ''delivered'',
     upi = None, discount = None, shipping = None, tax = None,
     returnStatus = None, returnReason = None, rejectionReason = None,
     cancellationReason = None, trackingNumber = None, invoiceId = None\<rparr>"

definition shop :: db where
  "shop = \<lparr>products = [''p1'' \<mapsto> \<lparr>title = ''Shirt'', trackInventoryBySize = False,
                                   sizeInventory = None, stock = 5\<rparr>,
                        ''p2'' \<mapsto> \<lparr>title = ''Cap'', trackInventoryBySize = False,
                                   sizeInventory = None, stock = 2\<rparr>],
            orders = [''o1'' \<mapsto> order1],
            invoices = [],
            users = [''u1'' \<mapsto> alice, ''u2'' \<mapsto> bob, ''u0'' \<mapsto> root],
            outbox = []\<rparr>"

text \<open>The same shop with the order in another status and return state.\<close>

definition shop_with :: "string \<Rightarrow> string option \<Rightarrow> db" where
  "shop_with s r = shop\<lparr>orders := [''o1'' \<mapsto> order1\<lparr>status := s, returnStatus := r\<rparr>]\<rparr>"

text \<open>A request body with the given items and nothing but the address filled in.\<close>

definition basket :: "item list \<Rightarrow> body" where
  "basket its = \<lparr>b_name = ''Alice'', b_phone = ''5550100'', b_address = ''1 Main Road'',
     b_city = ''Pune'', b_state = ''MH'', b_pincode = ''411001'', b_customer = None,
     b_items = its, b_total = None, b_paymentMethod = [], b_payment = [],
     b_status = None, b_upi = None\<rparr>"

text \<open>The shop with two more orders, placed by Bob.\<close>

definition shop2 :: db where
  "shop2 = shop\<lparr>orders := [''o1'' \<mapsto> order1, ''o2'' \<mapsto> order1\<lparr>userId := Some ''u2''\<rparr>,
                              ''o3'' \<mapsto> order1\<lparr>userId := Some ''u2''\<rparr>]\<rparr>"

text \<open>
  A server in India (UTC+05:30) at noon of 1 May 2024, half an hour after the following
  midnight, and at six in the morning of 2 May.
\<close>

definition india_noon :: clock where
  "india_noon = clock_at 330 1714545000000"

definition india_past_midnight :: clock where
  "india_past_midnight = clock_at 330 1714590000000"

definition india_morning :: clock where
  "india_morning = clock_at 330 1714609800000"

section \<open>Properties\<close>

subsection \<open>Auxiliary facts about the inventory loop\<close>

lemma or_num_stock: "or_num (Some n) 0 = n"
  by (simp add: or_num_def)

lemma reserve_scalar:
  assumes "scalar_stock ps k = Some n" and "reserve ps it = Inr ps'"
  shows "scalar_stock ps' k = Some (n - (if names it k then requestedQty it else 0))"
  using assms
  by (auto simp: reserve_def scalar_stock_def names_def item_key_def or_num_stock Let_def
      split: option.splits if_splits)

lemma reserve_scalar_ok:
  assumes "scalar_stock ps k = Some n" and "reserve ps it = Inr ps'" and "names it k"
  shows "requestedQty it \<le> n"
  using assms
  by (auto simp: reserve_def scalar_stock_def names_def item_key_def or_num_stock Let_def
      split: option.splits if_splits)

lemma reserve_conflict_scalar:
  assumes "ps k = Some p" and "\<not> trackInventoryBySize p" and "names it k"
    and "stock p < requestedQty it"
  shows "reserve ps it =
    Inl (StockConflict (''Insufficient stock for '' @ title p) (item_key it) (stock p))"
  using assms
  by (auto simp: reserve_def names_def item_key_def or_num_stock Let_def)

lemma reserve_nonneg:
  assumes "scalar_stock ps k = Some n" and "0 \<le> n" and "reserve ps it = Inr ps'"
  shows "\<exists>m. scalar_stock ps' k = Some m \<and> 0 \<le> m"
proof (cases "names it k")
  case True
  with assms reserve_scalar[OF assms(1,3)] reserve_scalar_ok[OF assms(1,3)]
  show ?thesis by simp
next
  case False
  with assms reserve_scalar[OF assms(1,3)] show ?thesis by simp
qed

lemma decrement_scalar:
  "scalar_stock ps k = Some n \<Longrightarrow> decrement_inventory ps its = (None, ps') \<Longrightarrow>
   scalar_stock ps' k = Some (n - requested_for k its)"
proof (induction its arbitrary: ps n)
  case Nil
  then show ?case by (simp add: requested_for_def)
next
  case (Cons it its)
  from Cons.prems(2) obtain ps1 where r: "reserve ps it = Inr ps1"
    and d: "decrement_inventory ps1 its = (None, ps')"
    by (auto split: sum.splits)
  from reserve_scalar[OF Cons.prems(1) r]
  have "scalar_stock ps1 k = Some (n - (if names it k then requestedQty it else 0))" .
  from Cons.IH[OF this d] show ?case
    by (simp add: requested_for_def)
qed

lemma decrement_nonneg:
  "scalar_stock ps k = Some n \<Longrightarrow> 0 \<le> n \<Longrightarrow>
   \<exists>m. scalar_stock (snd (decrement_inventory ps its)) k = Some m \<and> 0 \<le> m"
proof (induction its arbitrary: ps n)
  case Nil
  then show ?case by simp
next
  case (Cons it its)
  show ?case
  proof (cases "reserve ps it")
    case (Inl e)
    with Cons.prems show ?thesis by simp
  next
    case (Inr ps1)
    from reserve_nonneg[OF Cons.prems Inr]
    obtain m where "scalar_stock ps1 k = Some m" "0 \<le> m"
      by blast
    from Cons.IH[OF this] Inr show ?thesis by simp
  qed
qed

lemma decrement_append:
  "decrement_inventory ps (xs @ ys) =
     (case decrement_inventory ps xs of
        (None, ps') \<Rightarrow> decrement_inventory ps' ys
      | (Some e, ps') \<Rightarrow> (Some e, ps'))"
  by (induction xs arbitrary: ps) (auto split: sum.splits)

lemma decrement_stops:
  assumes "decrement_inventory ps pre = (None, ps1)" and "reserve ps1 it = Inl e"
  shows "decrement_inventory ps (pre @ it # post) = (Some e, ps1)"
  using assms by (simp add: decrement_append)

lemma computed_sum:
  "computed its = sum_list (map (\<lambda>it. or_num (price it) 0 * or_num (qty it) 0) its)"
proof -
  have "foldl (\<lambda>sum it. sum + or_num (price it) 0 * or_num (qty it) 0) a its =
        a + sum_list (map (\<lambda>it. or_num (price it) 0 * or_num (qty it) 0) its)" for a
    by (induction its arbitrary: a) simp_all
  from this[of 0] show ?thesis by (simp add: computed_def)
qed

text \<open>The three outcomes of \<open>createOrder\<close>.\<close>

lemma createOrder_invalid:
  "validate b = Some e \<Longrightarrow> createOrder actor new_id b st = (Inl e, st)"
  by (simp add: createOrder_def)

lemma createOrder_conflict:
  "validate b = None \<Longrightarrow> decrement_inventory (products st) (b_items b) = (Some e, ps) \<Longrightarrow>
   createOrder actor new_id b st = (Inl e, st\<lparr>products := ps\<rparr>)"
  by (simp add: createOrder_def)

lemma createOrder_created:
  "validate b = None \<Longrightarrow> decrement_inventory (products st) (b_items b) = (None, ps) \<Longrightarrow>
   createOrder actor new_id b st =
     (Inr (new_order actor b),
      st\<lparr>products := ps, orders := (orders st)(new_id \<mapsto> new_order actor b)\<rparr>)"
  by (simp add: createOrder_def save_order_def Let_def)

lemma createOrder_products:
  "products (snd (createOrder actor new_id b st)) =
     (case validate b of
        Some e \<Rightarrow> products st
      | None \<Rightarrow> snd (decrement_inventory (products st) (b_items b)))"
  by (auto simp: createOrder_def save_order_def Let_def split: option.splits prod.splits)

lemma createOrder_success:
  assumes "fst (createOrder actor new_id b st) = Inr doc"
  shows "validate b = None \<and> doc = new_order actor b \<and>
         fst (decrement_inventory (products st) (b_items b)) = None"
  using assms
  by (auto simp: createOrder_def save_order_def Let_def split: option.splits prod.splits)

subsection \<open>Stock of a product without per-size tracking\<close>

text \<open>
  Claim C1, as it is worded, at a line item whose quantity is zero: the shop has five
  shirts, the order holds one line for the shirt with \<^verbatim>\<open>qty: 0\<close>. The order is created,
  the quantities of the shirt across the order sum to zero, and the stock afterwards is
  four, not five: the loop requests \<^verbatim>\<open>Number(item.qty || 1)\<close> units.
\<close>

theorem createOrder_zero_quantity_counterexample:
  "fst (createOrder (Some alice) ''o2'' (basket [shirt\<lparr>qty := Some 0\<rparr>]) shop) =
     Inr (new_order (Some alice) (basket [shirt\<lparr>qty := Some 0\<rparr>]))
   \<and> scalar_stock (products shop) ''p1'' = Some 5
   \<and> qty_sum ''p1'' (b_items (basket [shirt\<lparr>qty := Some 0\<rparr>])) = 0
   \<and> scalar_stock
       (products (snd (createOrder (Some alice) ''o2'' (basket [shirt\<lparr>qty := Some 0\<rparr>]) shop)))
       ''p1'' = Some 4
   \<and> scalar_stock
       (products (snd (createOrder (Some alice) ''o2'' (basket [shirt\<lparr>qty := Some 0\<rparr>]) shop)))
       ''p1'' \<noteq> Some (5 - qty_sum ''p1'' (b_items (basket [shirt\<lparr>qty := Some 0\<rparr>])))"
  by (simp add: createOrder_def validate_def field_or_customer_def or_str_def pinOk_def
      is_digit_def basket_def shirt_def shop_def reserve_def or_opt_def truthy_def
      String_id_def requestedQty_def or_num_def scalar_stock_def qty_sum_def names_def
      item_key_def save_order_def Let_def)

text \<open>
  Claim C1, amended. Let \<open>k\<close> be a product without per-size tracking whose stock before
  the request is \<open>n\<close>.
  \<^item> If \<open>n\<close> is not negative, the stock of \<open>k\<close> after the request is not negative,
    whatever the reply.
  \<^item> If the request passes validation, the items before \<open>it\<close> are reserved without a
    conflict, \<open>it\<close> names \<open>k\<close> and requests more than the stock \<open>k\<close> has at that point,
    then the reply is the 409 that carries the item's id and that stock as the available
    quantity, and the products are as they were before \<open>it\<close> was looked at.
  \<^item> If the order is created, the stock of \<open>k\<close> is \<open>n\<close> minus the units requested of
    \<open>k\<close> across the items, where an item requests its quantity, and one unit when its
    quantity is missing or zero.
\<close>

theorem createOrder_scalar_stock:
  assumes "scalar_stock (products st) k = Some n"
  shows "(0 \<le> n \<longrightarrow>
            (\<exists>m. scalar_stock (products (snd (createOrder actor new_id b st))) k = Some m \<and> 0 \<le> m))
       \<and> (validate b = None \<and> b_items b = pre @ it # post \<and>
            decrement_inventory (products st) pre = (None, ps1) \<and>
            ps1 k = Some p \<and> \<not> trackInventoryBySize p \<and> names it k \<and>
            stock p < requestedQty it \<longrightarrow>
            createOrder actor new_id b st =
              (Inl (StockConflict (''Insufficient stock for '' @ title p) (item_key it) (stock p)),
               st\<lparr>products := ps1\<rparr>))
       \<and> ((\<exists>doc. fst (createOrder actor new_id b st) = Inr doc) \<longrightarrow>
            scalar_stock (products (snd (createOrder actor new_id b st))) k =
              Some (n - requested_for k (b_items b)))"
proof (intro conjI impI)
  assume "0 \<le> n"
  with assms decrement_nonneg[OF assms, of "b_items b"]
  show "\<exists>m. scalar_stock (products (snd (createOrder actor new_id b st))) k = Some m \<and> 0 \<le> m"
    by (cases "validate b") (auto simp: createOrder_products)
next
  assume h: "validate b = None \<and> b_items b = pre @ it # post \<and>
            decrement_inventory (products st) pre = (None, ps1) \<and>
            ps1 k = Some p \<and> \<not> trackInventoryBySize p \<and> names it k \<and>
            stock p < requestedQty it"
  with reserve_conflict_scalar[of ps1 k p it] have "reserve ps1 it =
      Inl (StockConflict (''Insufficient stock for '' @ title p) (item_key it) (stock p))"
    by simp
  with h have "decrement_inventory (products st) (b_items b) =
      (Some (StockConflict (''Insufficient stock for '' @ title p) (item_key it) (stock p)), ps1)"
    by (simp add: decrement_stops)
  with h show "createOrder actor new_id b st =
      (Inl (StockConflict (''Insufficient stock for '' @ title p) (item_key it) (stock p)),
       st\<lparr>products := ps1\<rparr>)"
    by (simp add: createOrder_conflict)
next
  assume "\<exists>doc. fst (createOrder actor new_id b st) = Inr doc"
  then obtain doc where "fst (createOrder actor new_id b st) = Inr doc" ..
  from createOrder_success[OF this]
  have v: "validate b = None"
    and d: "fst (decrement_inventory (products st) (b_items b)) = None"
    by simp_all
  from d have "decrement_inventory (products st) (b_items b) =
      (None, snd (decrement_inventory (products st) (b_items b)))"
    by (cases "decrement_inventory (products st) (b_items b)") simp
  from decrement_scalar[OF assms this] v
  show "scalar_stock (products (snd (createOrder actor new_id b st))) k =
      Some (n - requested_for k (b_items b))"
    by (simp add: createOrder_products)
qed

theorem createOrder_scalar_stock_witness:
  "scalar_stock (products shop) ''p1'' = Some 5
   \<and> fst (createOrder (Some alice) ''o2'' (basket [shirt, cap]) shop) =
       Inr (new_order (Some alice) (basket [shirt, cap]))
   \<and> requested_for ''p1'' (b_items (basket [shirt, cap])) = 3
   \<and> scalar_stock (products (snd (createOrder (Some alice) ''o2'' (basket [shirt, cap]) shop)))
       ''p1'' = Some 2
   \<and> createOrder (Some alice) ''o2'' (basket [shirt\<lparr>qty := Some 6\<rparr>]) shop =
       (Inl (StockConflict ''Insufficient stock for Shirt'' (Some ''p1'') 5),
        shop\<lparr>products := products shop\<rparr>)"
proof -
  have s: "scalar_stock (products shop) ''p1'' = Some 5"
    by (simp add: scalar_stock_def shop_def)
  have c: "fst (createOrder (Some alice) ''o2'' (basket [shirt, cap]) shop) =
       Inr (new_order (Some alice) (basket [shirt, cap]))"
    by (simp add: createOrder_def validate_def field_or_customer_def or_str_def pinOk_def
      is_digit_def basket_def shirt_def cap_def shop_def reserve_def or_opt_def truthy_def
      String_id_def requestedQty_def or_num_def save_order_def Let_def)
  have r: "requested_for ''p1'' (b_items (basket [shirt, cap])) = 3"
    by (simp add: requested_for_def names_def item_key_def or_opt_def truthy_def String_id_def
      basket_def shirt_def cap_def requestedQty_def or_num_def)
  have v: "validate (basket [shirt\<lparr>qty := Some 6\<rparr>]) = None"
    by (simp add: validate_def field_or_customer_def or_str_def pinOk_def is_digit_def
      basket_def Let_def)
  have i: "b_items (basket [shirt\<lparr>qty := Some 6\<rparr>]) = [] @ shirt\<lparr>qty := Some 6\<rparr> # []"
    by (simp add: basket_def)
  have p: "products shop ''p1'' = Some \<lparr>title = ''Shirt'', trackInventoryBySize = False,
      sizeInventory = None, stock = 5\<rparr>"
    by (simp add: shop_def)
  have q: "names (shirt\<lparr>qty := Some 6\<rparr>) ''p1'' \<and> requestedQty (shirt\<lparr>qty := Some 6\<rparr>) = 6
      \<and> item_key (shirt\<lparr>qty := Some 6\<rparr>) = Some ''p1''"
    by (simp add: names_def item_key_def or_opt_def truthy_def String_id_def shirt_def
      requestedQty_def or_num_def)
  from createOrder_scalar_stock[OF s, where actor = "Some alice" and new_id = "''o2''"
      and b = "basket [shirt, cap]"] c r
  have a: "scalar_stock
      (products (snd (createOrder (Some alice) ''o2'' (basket [shirt, cap]) shop))) ''p1'' = Some 2"
    by simp
  from createOrder_scalar_stock[OF s, where actor = "Some alice" and new_id = "''o2''"
      and b = "basket [shirt\<lparr>qty := Some 6\<rparr>]" and pre = "[]"
      and it = "shirt\<lparr>qty := Some 6\<rparr>" and post = "[]" and ?ps1.0 = "products shop"
      and p = "\<lparr>title = ''Shirt'', trackInventoryBySize = False, sizeInventory = None,
        stock = 5\<rparr>"] v i p q
  have b: "createOrder (Some alice) ''o2'' (basket [shirt\<lparr>qty := Some 6\<rparr>]) shop =
       (Inl (StockConflict ''Insufficient stock for Shirt'' (Some ''p1'') 5),
        shop\<lparr>products := products shop\<rparr>)"
    by simp
  from s c r a b show ?thesis by simp
qed

subsection \<open>A conflict in the middle of an order\<close>

text \<open>
  Claim C2. When the request passes validation, the items before the \<open>k\<close>-th are
  reserved without a conflict (leaving the products \<open>ps1\<close>) and the \<open>k\<close>-th item meets
  a conflict, then \<open>createOrder\<close> replies with that conflict and the database afterwards
  holds \<open>ps1\<close>: the decrements of the earlier items stay, each product without per-size
  tracking is lower by the units the earlier items requested of it, and the collection of
  orders is the one from before the request, so the order is not persisted.
\<close>

theorem createOrder_no_rollback:
  assumes "validate b = None"
    and "b_items b = pre @ it # post"
    and "decrement_inventory (products st) pre = (None, ps1)"
    and "reserve ps1 it = Inl e"
  shows "createOrder actor new_id b st = (Inl e, st\<lparr>products := ps1\<rparr>)
       \<and> orders (snd (createOrder actor new_id b st)) = orders st
       \<and> (\<forall>k n. scalar_stock (products st) k = Some n \<longrightarrow>
            scalar_stock (products (snd (createOrder actor new_id b st))) k =
              Some (n - requested_for k pre))"
proof -
  from assms(2-4) have "decrement_inventory (products st) (b_items b) = (Some e, ps1)"
    by (simp add: decrement_stops)
  with assms(1) have c: "createOrder actor new_id b st = (Inl e, st\<lparr>products := ps1\<rparr>)"
    by (rule createOrder_conflict)
  have "scalar_stock ps1 k = Some (n - requested_for k pre)"
    if "scalar_stock (products st) k = Some n" for k n
    using that assms(3) by (rule decrement_scalar)
  with c show ?thesis by simp
qed

theorem createOrder_no_rollback_witness:
  "validate (basket [shirt, cap\<lparr>qty := Some 3\<rparr>]) = None
   \<and> reserve (snd (decrement_inventory (products shop) [shirt])) (cap\<lparr>qty := Some 3\<rparr>) =
       Inl (StockConflict ''Insufficient stock for Cap'' (Some ''p2'') 2)
   \<and> fst (createOrder (Some alice) ''o2'' (basket [shirt, cap\<lparr>qty := Some 3\<rparr>]) shop) =
       Inl (StockConflict ''Insufficient stock for Cap'' (Some ''p2'') 2)
   \<and> scalar_stock (products shop) ''p1'' = Some 5
   \<and> scalar_stock
       (products (snd (createOrder (Some alice) ''o2'' (basket [shirt, cap\<lparr>qty := Some 3\<rparr>]) shop)))
       ''p1'' = Some 2
   \<and> orders (snd (createOrder (Some alice) ''o2'' (basket [shirt, cap\<lparr>qty := Some 3\<rparr>]) shop))
       ''o2'' = None"
proof -
  let ?b = "basket [shirt, cap\<lparr>qty := Some 3\<rparr>]"
  let ?ps1 = "snd (decrement_inventory (products shop) [shirt])"
  have v: "validate ?b = None"
    by (simp add: validate_def field_or_customer_def or_str_def pinOk_def is_digit_def
      basket_def Let_def)
  have i: "b_items ?b = [shirt] @ cap\<lparr>qty := Some 3\<rparr> # []"
    by (simp add: basket_def)
  have d: "decrement_inventory (products shop) [shirt] = (None, ?ps1)"
    by (simp add: shop_def shirt_def reserve_def or_opt_def truthy_def String_id_def
      requestedQty_def or_num_def Let_def)
  have r: "reserve ?ps1 (cap\<lparr>qty := Some 3\<rparr>) =
       Inl (StockConflict ''Insufficient stock for Cap'' (Some ''p2'') 2)"
    by (simp add: shop_def shirt_def cap_def reserve_def or_opt_def truthy_def String_id_def
      requestedQty_def or_num_def Let_def)
  have s: "scalar_stock (products shop) ''p1'' = Some 5"
    by (simp add: scalar_stock_def shop_def)
  have q: "requested_for ''p1'' [shirt] = 3"
    by (simp add: requested_for_def names_def item_key_def or_opt_def truthy_def String_id_def
      shirt_def requestedQty_def or_num_def)
  have o: "orders shop ''o2'' = None"
    by (simp add: shop_def)
  note t = createOrder_no_rollback[OF v i d r, of "Some alice" "''o2''"]
  from t have a: "fst (createOrder (Some alice) ''o2'' ?b shop) =
       Inl (StockConflict ''Insufficient stock for Cap'' (Some ''p2'') 2)"
    by simp
  from t s have "scalar_stock (products (snd (createOrder (Some alice) ''o2'' ?b shop))) ''p1'' =
       Some (5 - requested_for ''p1'' [shirt])"
    by blast
  with q have c: "scalar_stock (products (snd (createOrder (Some alice) ''o2'' ?b shop))) ''p1'' =
       Some 2"
    by simp
  from t o have n: "orders (snd (createOrder (Some alice) ''o2'' ?b shop)) ''o2'' = None"
    by simp
  from v r a s c n show ?thesis by simp
qed

subsection \<open>The total of a new order\<close>

text \<open>
  Claim C3. For every order that \<open>createOrder\<close> creates, the order is persisted under
  its id with the line items of the request, and its total is the total of the request
  when that is a number greater than zero; otherwise the total of the request is ignored
  and the persisted total is the sum over the line items of price times quantity, minus
  the discount, plus shipping and tax of the order.
\<close>

theorem createOrder_total:
  assumes "fst (createOrder actor new_id b st) = Inr doc"
  shows "orders (snd (createOrder actor new_id b st)) new_id = Some doc
       \<and> items doc = b_items b
       \<and> order_total doc =
           (case b_total b of
              None \<Rightarrow> stated_total doc
            | Some t \<Rightarrow> if 0 < t then t else stated_total doc)"
proof -
  from createOrder_success[OF assms]
  have v: "validate b = None" and doc: "doc = new_order actor b"
    and f: "fst (decrement_inventory (products st) (b_items b)) = None"
    by simp_all
  from f have dec: "decrement_inventory (products st) (b_items b) =
      (None, snd (decrement_inventory (products st) (b_items b)))"
    by (cases "decrement_inventory (products st) (b_items b)") simp
  have p: "orders (snd (createOrder actor new_id b st)) new_id = Some doc"
    by (simp add: createOrder_created[OF v dec] doc)
  have i: "items doc = b_items b"
    by (simp add: doc new_order_def Let_def)
  have s: "stated_total doc = computed (b_items b)"
    by (simp add: stated_total_def computed_sum doc new_order_def or_num_def Let_def)
  have t: "order_total doc = total_of b"
    by (simp add: doc new_order_def Let_def)
  from p i s t show ?thesis
    by (simp add: total_of_def split: option.splits)
qed

theorem createOrder_total_witness:
  "fst (createOrder (Some alice) ''o2'' (basket [shirt, cap]) shop) =
     Inr (new_order (Some alice) (basket [shirt, cap]))
   \<and> stated_total (new_order (Some alice) (basket [shirt, cap])) = 350
   \<and> order_total (new_order (Some alice) (basket [shirt, cap])) = 350
   \<and> orders (snd (createOrder (Some alice) ''o2'' (basket [shirt, cap]) shop)) ''o2'' =
       Some (new_order (Some alice) (basket [shirt, cap]))
   \<and> fst (createOrder (Some alice) ''o2'' ((basket [shirt, cap])\<lparr>b_total := Some 999\<rparr>) shop) =
       Inr (new_order (Some alice) ((basket [shirt, cap])\<lparr>b_total := Some 999\<rparr>))
   \<and> order_total (new_order (Some alice) ((basket [shirt, cap])\<lparr>b_total := Some 999\<rparr>)) = 999
   \<and> fst (createOrder (Some alice) ''o2'' ((basket [shirt, cap])\<lparr>b_total := Some 0\<rparr>) shop) =
       Inr (new_order (Some alice) ((basket [shirt, cap])\<lparr>b_total := Some 0\<rparr>))
   \<and> order_total (new_order (Some alice) ((basket [shirt, cap])\<lparr>b_total := Some 0\<rparr>)) = 350"
proof -
  let ?b = "basket [shirt, cap]"
  have c0: "fst (createOrder (Some alice) ''o2'' ?b shop) = Inr (new_order (Some alice) ?b)"
    by (simp add: createOrder_def validate_def field_or_customer_def or_str_def pinOk_def
      is_digit_def basket_def shirt_def cap_def shop_def reserve_def or_opt_def truthy_def
      String_id_def requestedQty_def or_num_def save_order_def Let_def)
  have c1: "fst (createOrder (Some alice) ''o2'' (?b\<lparr>b_total := Some 999\<rparr>) shop) =
      Inr (new_order (Some alice) (?b\<lparr>b_total := Some 999\<rparr>))"
    by (simp add: createOrder_def validate_def field_or_customer_def or_str_def pinOk_def
      is_digit_def basket_def shirt_def cap_def shop_def reserve_def or_opt_def truthy_def
      String_id_def requestedQty_def or_num_def save_order_def Let_def)
  have c2: "fst (createOrder (Some alice) ''o2'' (?b\<lparr>b_total := Some 0\<rparr>) shop) =
      Inr (new_order (Some alice) (?b\<lparr>b_total := Some 0\<rparr>))"
    by (simp add: createOrder_def validate_def field_or_customer_def or_str_def pinOk_def
      is_digit_def basket_def shirt_def cap_def shop_def reserve_def or_opt_def truthy_def
      String_id_def requestedQty_def or_num_def save_order_def Let_def)
  have t0: "b_total ?b = None"
    by (simp add: basket_def)
  have s0: "stated_total (new_order (Some alice) ?b) = 350"
    by (simp add: stated_total_def new_order_def basket_def shirt_def cap_def or_num_def Let_def)
  have s2: "stated_total (new_order (Some alice) (?b\<lparr>b_total := Some 0\<rparr>)) = 350"
    by (simp add: stated_total_def new_order_def basket_def shirt_def cap_def or_num_def Let_def)
  from createOrder_total[OF c0] t0 s0
  have r0: "order_total (new_order (Some alice) ?b) = 350
      \<and> orders (snd (createOrder (Some alice) ''o2'' ?b shop)) ''o2'' =
          Some (new_order (Some alice) ?b)"
    by simp
  from createOrder_total[OF c1]
  have r1: "order_total (new_order (Some alice) (?b\<lparr>b_total := Some 999\<rparr>)) = 999"
    by simp
  from createOrder_total[OF c2] s2
  have r2: "order_total (new_order (Some alice) (?b\<lparr>b_total := Some 0\<rparr>)) = 350"
    by simp
  from c0 c1 c2 s0 r0 r1 r2 show ?thesis by simp
qed

subsection \<open>Return requests\<close>

text \<open>
  Claim C4, evaluated on the handlers. The order of the shop is delivered and belongs to
  Alice. She requests a return (the return state becomes Pending), the return is
  approved (Approved), and she requests a return again: the handler accepts the request
  and the return state is Pending once more. The handler tests the reason, the owner and
  the status of the order, and never the return state.
\<close>

theorem requestReturn_after_approval:
  "map_option returnStatus
     (orders (snd (requestReturn alice ''o1'' (Some ''damaged'') shop)) ''o1'') =
       Some (Some ''Pending'')
   \<and> map_option returnStatus
       (orders (snd (approveReturn ''o1''
          (snd (requestReturn alice ''o1'' (Some ''damaged'') shop)))) ''o1'') =
       Some (Some ''Approved'')
   \<and> fst (requestReturn alice ''o1'' (Some ''damaged'')
        (snd (approveReturn ''o1'' (snd (requestReturn alice ''o1'' (Some ''damaged'') shop))))) =
       Inr (order1\<lparr>returnStatus := Some ''Pending'', returnReason := Some ''damaged''\<rparr>)
   \<and> map_option returnStatus
       (orders (snd (requestReturn alice ''o1'' (Some ''damaged'')
          (snd (approveReturn ''o1''
            (snd (requestReturn alice ''o1'' (Some ''damaged'') shop)))))) ''o1'') =
       Some (Some ''Pending'')"
  by (simp add: requestReturn_def approveReturn_def shop_def order1_def alice_def
      save_order_def send_def recipient_def trim_def is_ws_def String_id_def Let_def)

text \<open>
  Claim C5. For an order that exists: when its return state is not Pending,
  \<open>approveReturn\<close> and \<open>rejectReturn\<close> reply 400 (the return request is not pending) and
  leave the database as it is; when it is Pending, they succeed and save the order with
  the return state Approved and Rejected respectively (the rejection with its reason, if
  one is given).
\<close>

theorem return_decision_needs_pending:
  assumes "orders st oid = Some ord"
  shows "(returnStatus ord \<noteq> Some ''Pending'' \<longrightarrow>
            approveReturn oid st = (Inl (Rejected 400 ''Return request is not pending''), st) \<and>
            rejectReturn oid reason st =
              (Inl (Rejected 400 ''Return request is not pending''), st))
       \<and> (returnStatus ord = Some ''Pending'' \<longrightarrow>
            fst (approveReturn oid st) = Inr (ord\<lparr>returnStatus := Some ''Approved''\<rparr>) \<and>
            orders (snd (approveReturn oid st)) =
              (orders st)(oid \<mapsto> ord\<lparr>returnStatus := Some ''Approved''\<rparr>) \<and>
            fst (rejectReturn oid reason st) =
              Inr (ord\<lparr>returnStatus := Some ''Rejected'',
                       rejectionReason := (if truthy reason then reason else rejectionReason ord)\<rparr>) \<and>
            orders (snd (rejectReturn oid reason st)) =
              (orders st)(oid \<mapsto> ord\<lparr>returnStatus := Some ''Rejected'',
                       rejectionReason := (if truthy reason then reason else rejectionReason ord)\<rparr>))"
  using assms
  by (auto simp: approveReturn_def rejectReturn_def save_order_def send_def Let_def
      split: option.splits)

theorem return_decision_needs_pending_witness:
  "orders (shop_with ''delivered'' (Some ''Pending'')) ''o1'' =
     Some (order1\<lparr>returnStatus := Some ''Pending''\<rparr>)
   \<and> fst (approveReturn ''o1'' (shop_with ''delivered'' (Some ''Pending''))) =
       Inr (order1\<lparr>returnStatus := Some ''Approved''\<rparr>)
   \<and> fst (rejectReturn ''o1'' (Some ''worn'') (shop_with ''delivered'' (Some ''Pending''))) =
       Inr (order1\<lparr>returnStatus := Some ''Rejected'', rejectionReason := Some ''worn''\<rparr>)
   \<and> orders (shop_with ''delivered'' (Some ''Rejected'')) ''o1'' =
       Some (order1\<lparr>returnStatus := Some ''Rejected''\<rparr>)
   \<and> approveReturn ''o1'' (shop_with ''delivered'' (Some ''Rejected'')) =
       (Inl (Rejected 400 ''Return request is not pending''),
        shop_with ''delivered'' (Some ''Rejected''))"
proof -
  have p: "orders (shop_with ''delivered'' (Some ''Pending'')) ''o1'' =
     Some (order1\<lparr>returnStatus := Some ''Pending''\<rparr>)"
    by (simp add: shop_with_def shop_def order1_def)
  have r: "orders (shop_with ''delivered'' (Some ''Rejected'')) ''o1'' =
     Some (order1\<lparr>returnStatus := Some ''Rejected''\<rparr>)"
    by (simp add: shop_with_def shop_def order1_def)
  from return_decision_needs_pending[OF p, of "Some ''worn''"]
    return_decision_needs_pending[OF r, of "Some ''worn''"] p r
  show ?thesis by (simp add: truthy_def)
qed

text \<open>
  Claim C6. For an order that exists, \<open>requestReturn\<close> succeeds exactly when the order
  is delivered, the reason is not empty after trimming and the actor owns the order; it
  then saves the order with the return state Pending and the trimmed reason. Otherwise
  the database is unchanged and the reply is, in the order in which the handler tests:
  400 (the reason is required) when the reason is empty; 403 when the actor does not own
  the order; 400 (only delivered orders) when the order is not delivered.
\<close>

theorem requestReturn_outcomes:
  assumes "orders st oid = Some ord"
  shows "((\<exists>ord'. fst (requestReturn actor oid reason st) = Inr ord') \<longleftrightarrow>
            status ord = ''delivered'' \<and> reason_given reason \<and> owns actor ord)
       \<and> (status ord = ''delivered'' \<and> reason_given reason \<and> owns actor ord \<longrightarrow>
            requestReturn actor oid reason st =
              (Inr (ord\<lparr>returnReason := Some (trim (the reason)),
                        returnStatus := Some ''Pending''\<rparr>),
               st\<lparr>orders := (orders st)(oid \<mapsto>
                  ord\<lparr>returnReason := Some (trim (the reason)),
                      returnStatus := Some ''Pending''\<rparr>)\<rparr>))
       \<and> (\<not> reason_given reason \<longrightarrow>
            requestReturn actor oid reason st =
              (Inl (Rejected 400 ''Return reason is required''), st))
       \<and> (reason_given reason \<and> \<not> owns actor ord \<longrightarrow>
            requestReturn actor oid reason st = (Inl (Rejected 403 ''Forbidden''), st))
       \<and> (reason_given reason \<and> owns actor ord \<and> status ord \<noteq> ''delivered'' \<longrightarrow>
            requestReturn actor oid reason st =
              (Inl (Rejected 400 ''Return can only be requested for delivered orders''), st))"
  using assms
  by (auto simp: requestReturn_def reason_given_def owns_def save_order_def Let_def
      split: option.splits)

theorem requestReturn_outcomes_witness:
  "orders shop ''o1'' = Some order1
   \<and> fst (requestReturn alice ''o1'' (Some '' damaged '') shop) =
       Inr (order1\<lparr>returnReason := Some ''damaged'', returnStatus := Some ''Pending''\<rparr>)
   \<and> requestReturn alice ''o1'' (Some ''  '') shop =
       (Inl (Rejected 400 ''Return reason is required''), shop)
   \<and> requestReturn bob ''o1'' (Some ''damaged'') shop = (Inl (Rejected 403 ''Forbidden''), shop)
   \<and> orders (shop_with ''shipped'' None) ''o1'' = Some (order1\<lparr>status := ''shipped''\<rparr>)
   \<and> requestReturn alice ''o1'' (Some ''damaged'') (shop_with ''shipped'' None) =
       (Inl (Rejected 400 ''Return can only be requested for delivered orders''),
        shop_with ''shipped'' None)"
proof -
  have o: "orders shop ''o1'' = Some order1"
    by (simp add: shop_def)
  have s: "orders (shop_with ''shipped'' None) ''o1'' = Some (order1\<lparr>status := ''shipped''\<rparr>)"
    by (simp add: shop_with_def shop_def order1_def)
  have g: "reason_given (Some '' damaged '') \<and> trim '' damaged '' = ''damaged''
      \<and> \<not> reason_given (Some ''  '') \<and> reason_given (Some ''damaged'')"
    by (simp add: reason_given_def trim_def is_ws_def)
  have w: "owns alice order1 \<and> \<not> owns bob order1 \<and> owns alice (order1\<lparr>status := ''shipped''\<rparr>)
      \<and> status order1 = ''delivered''"
    by (simp add: owns_def String_id_def order1_def alice_def bob_def)
  from requestReturn_outcomes[OF o, of alice "Some '' damaged ''"]
    requestReturn_outcomes[OF o, of alice "Some ''  ''"]
    requestReturn_outcomes[OF o, of bob "Some ''damaged''"]
    requestReturn_outcomes[OF s, of alice "Some ''damaged''"] o s g w
  show ?thesis by simp
qed

subsection \<open>Cancellation and status changes\<close>

text \<open>
  Claim C8. For an order that exists, \<open>cancel\<close> succeeds exactly when the status is
  pending, cod_pending or pending_verification and the actor owns the order or is an
  admin; it then saves the order with the status cancelled, and with the reason if one
  is given. An actor who neither owns the order nor is an admin gets 403; an owner or
  admin gets 400 in any other status; in both cases the database is unchanged. The
  products are the same after every call of \<open>cancel\<close>: nothing is restocked.
\<close>

theorem cancel_outcomes:
  assumes "orders st oid = Some ord"
  shows "((\<exists>ord'. fst (cancel actor oid reason st) = Inr ord') \<longleftrightarrow>
            status ord \<in> {''pending'', ''cod_pending'', ''pending_verification''} \<and>
            (owns actor ord \<or> role actor = ''admin''))
       \<and> (status ord \<in> {''pending'', ''cod_pending'', ''pending_verification''} \<and>
            (owns actor ord \<or> role actor = ''admin'') \<longrightarrow>
            cancel actor oid reason st =
              (Inr (ord\<lparr>status := ''cancelled'',
                        cancellationReason :=
                          (if truthy reason then reason else cancellationReason ord)\<rparr>),
               st\<lparr>orders := (orders st)(oid \<mapsto> ord\<lparr>status := ''cancelled'',
                        cancellationReason :=
                          (if truthy reason then reason else cancellationReason ord)\<rparr>)\<rparr>))
       \<and> (\<not> (owns actor ord \<or> role actor = ''admin'') \<longrightarrow>
            cancel actor oid reason st = (Inl (Rejected 403 ''Forbidden''), st))
       \<and> ((owns actor ord \<or> role actor = ''admin'') \<and>
            status ord \<notin> {''pending'', ''cod_pending'', ''pending_verification''} \<longrightarrow>
            cancel actor oid reason st =
              (Inl (Rejected 400 ''Order cannot be cancelled in current status''), st))
       \<and> products (snd (cancel actor oid reason st)) = products st"
  using assms
  by (auto simp: cancel_def owns_def save_order_def cancellableStatuses_def Let_def
      split: option.splits)

theorem cancel_outcomes_witness:
  "orders (shop_with ''pending'' None) ''o1'' = Some (order1\<lparr>status := ''pending''\<rparr>)
   \<and> fst (cancel alice ''o1'' (Some ''changed my mind'') (shop_with ''pending'' None)) =
       Inr (order1\<lparr>status := ''cancelled'', cancellationReason := Some ''changed my mind''\<rparr>)
   \<and> fst (cancel root ''o1'' None (shop_with ''pending'' None)) =
       Inr (order1\<lparr>status := ''cancelled''\<rparr>)
   \<and> cancel bob ''o1'' None (shop_with ''pending'' None) =
       (Inl (Rejected 403 ''Forbidden''), shop_with ''pending'' None)
   \<and> orders (shop_with ''shipped'' None) ''o1'' = Some (order1\<lparr>status := ''shipped''\<rparr>)
   \<and> cancel alice ''o1'' None (shop_with ''shipped'' None) =
       (Inl (Rejected 400 ''Order cannot be cancelled in current status''),
        shop_with ''shipped'' None)
   \<and> products (snd (cancel alice ''o1'' None (shop_with ''pending'' None))) =
       products (shop_with ''pending'' None)"
proof -
  have p: "orders (shop_with ''pending'' None) ''o1'' = Some (order1\<lparr>status := ''pending''\<rparr>)"
    by (simp add: shop_with_def shop_def order1_def)
  have s: "orders (shop_with ''shipped'' None) ''o1'' = Some (order1\<lparr>status := ''shipped''\<rparr>)"
    by (simp add: shop_with_def shop_def order1_def)
  have w: "owns alice (order1\<lparr>status := ''pending''\<rparr>) \<and> owns alice (order1\<lparr>status := ''shipped''\<rparr>)
      \<and> \<not> owns bob (order1\<lparr>status := ''pending''\<rparr>) \<and> role bob \<noteq> ''admin''
      \<and> role root = ''admin'' \<and> truthy (Some ''changed my mind'') \<and> \<not> truthy None"
    by (simp add: owns_def String_id_def order1_def alice_def bob_def root_def truthy_def)
  from cancel_outcomes[OF p, of alice "Some ''changed my mind''"]
    cancel_outcomes[OF p, of root None]
    cancel_outcomes[OF p, of bob None]
    cancel_outcomes[OF p, of alice None]
    cancel_outcomes[OF s, of alice None] p s w
  show ?thesis by simp
qed

text \<open>
  Claim C9. \<open>setStatus\<close> replies 400 and leaves the database unchanged for every new
  status outside pending, paid, shipped, delivered and cancelled (with the message
  \<^verbatim>\<open>Invalid status\<close>, or \<^verbatim>\<open>Missing status\<close> when the status is missing or the empty
  string). For every order that exists and every status of the five, whatever the
  status of the order was, it succeeds and saves the order with the new status.
\<close>

theorem setStatus_membership_only:
  "(\<not> truthy new_status \<longrightarrow>
      setStatus oid new_status st = (Inl (Rejected 400 ''Missing status''), st))
   \<and> (s \<noteq> [] \<and> s \<notin> {''pending'', ''paid'', ''shipped'', ''delivered'', ''cancelled''} \<longrightarrow>
      setStatus oid (Some s) st = (Inl (Rejected 400 ''Invalid status''), st))
   \<and> (s \<in> {''pending'', ''paid'', ''shipped'', ''delivered'', ''cancelled''} \<and>
        orders st oid = Some ord \<longrightarrow>
        fst (setStatus oid (Some s) st) = Inr (ord\<lparr>status := s\<rparr>) \<and>
        orders (snd (setStatus oid (Some s) st)) = (orders st)(oid \<mapsto> ord\<lparr>status := s\<rparr>))"
  by (auto simp: setStatus_def truthy_def ALLOWED_STATUSES_def save_order_def send_def
      notify_status_def Let_def split: option.splits)

theorem setStatus_membership_only_witness:
  "orders shop ''o1'' = Some order1 \<and> status order1 = ''delivered''
   \<and> fst (setStatus ''o1'' (Some ''pending'') shop) = Inr (order1\<lparr>status := ''pending''\<rparr>)
   \<and> orders (snd (setStatus ''o1'' (Some ''pending'') shop)) =
       (orders shop)(''o1'' \<mapsto> order1\<lparr>status := ''pending''\<rparr>)
   \<and> setStatus ''o1'' (Some ''refunded'') shop = (Inl (Rejected 400 ''Invalid status''), shop)
   \<and> setStatus ''o1'' None shop = (Inl (Rejected 400 ''Missing status''), shop)"
proof -
  have o: "orders shop ''o1'' = Some order1 \<and> status order1 = ''delivered''"
    by (simp add: shop_def order1_def)
  from setStatus_membership_only[of None "''o1''" shop "''pending''" order1]
    setStatus_membership_only[of None "''o1''" shop "''refunded''" order1] o
  show ?thesis by (simp add: truthy_def)
qed

text \<open>
  Claim C10. For an order that exists, \<open>adminUpdate\<close> with a return status out of None,
  Pending, Approved and Rejected succeeds and saves the order with that return status,
  whatever the order's return status and status were before and whatever else the body
  carries; so \<open>adminUpdate\<close> with Approved leaves the order Approved without the tests of
  \<open>approveReturn\<close>, \<open>rejectReturn\<close> and \<open>requestReturn\<close>.
\<close>

theorem adminUpdate_sets_returnStatus:
  assumes "orders st oid = Some ord"
    and "r \<in> {''None'', ''Pending'', ''Approved'', ''Rejected''}"
  shows "\<exists>ord'. fst (adminUpdate oid new_status tracking (Some r) st) = Inr ord' \<and>
           returnStatus ord' = Some r \<and>
           orders (snd (adminUpdate oid new_status tracking (Some r) st)) oid = Some ord'"
  using assms
  by (auto simp: adminUpdate_def truthy_def String_id_def RETURN_STATUSES_def save_order_def
      send_def notify_status_def Let_def split: option.splits)

theorem adminUpdate_sets_returnStatus_witness:
  "orders (shop_with ''pending'' None) ''o1'' = Some (order1\<lparr>status := ''pending''\<rparr>)
   \<and> (\<exists>ord'. fst (adminUpdate ''o1'' None None (Some ''Approved'') (shop_with ''pending'' None)) =
         Inr ord' \<and> returnStatus ord' = Some ''Approved'' \<and> status ord' = ''pending'')
   \<and> map_option returnStatus
       (orders (snd (adminUpdate ''o1'' None None (Some ''Approved'') (shop_with ''pending'' None)))
          ''o1'') = Some (Some ''Approved'')"
proof -
  have p: "orders (shop_with ''pending'' None) ''o1'' = Some (order1\<lparr>status := ''pending''\<rparr>)"
    by (simp add: shop_with_def shop_def order1_def)
  have m: "''Approved'' \<in> {''None'', ''Pending'', ''Approved'', ''Rejected''}"
    by simp
  from adminUpdate_sets_returnStatus[OF p m, of None None]
  obtain ord' where
    f: "fst (adminUpdate ''o1'' None None (Some ''Approved'') (shop_with ''pending'' None)) = Inr ord'"
    and r: "returnStatus ord' = Some ''Approved''"
    and o: "orders (snd (adminUpdate ''o1'' None None (Some ''Approved'')
        (shop_with ''pending'' None))) ''o1'' = Some ord'"
    by blast
  have "fst (adminUpdate ''o1'' None None (Some ''Approved'') (shop_with ''pending'' None)) =
      Inr (order1\<lparr>status := ''pending'', returnStatus := Some ''Approved''\<rparr>)"
    by (simp add: adminUpdate_def shop_with_def shop_def order1_def truthy_def String_id_def
      RETURN_STATUSES_def save_order_def Let_def)
  with f have "status ord' = ''pending''" by (auto simp: order1_def)
  with p f r o show ?thesis by simp
qed

subsection \<open>Invoices\<close>

text \<open>
  A second request for the same order is answered like the first and changes nothing,
  and the order has one invoice afterwards if it had none.
\<close>

lemma find_append_new:
  "find P xs = None \<Longrightarrow> P x \<Longrightarrow> find P (xs @ [x]) = Some x"
  by (induction xs) (auto split: if_splits)

lemma generate_existing:
  assumes "truthy orderId" and "orders st (String_id orderId) = Some ord"
    and "find (\<lambda>i. inv_orderId i = String_id orderId) (invoices st) = Some doc"
  shows "generateInvoice c orderId st = (Inr (inv_id doc, invoiceNo doc), st)"
  using assms by (simp add: generateInvoice_def)

lemma generate_new:
  assumes "truthy orderId" and "orders st (String_id orderId) = Some ord"
    and "find (\<lambda>i. inv_orderId i = String_id orderId) (invoices st) = None"
  shows "generateInvoice c orderId st =
     (Inr (length (invoices st), next_invoiceNo c (invoices st)),
      st\<lparr>invoices := invoices st @
             [\<lparr>inv_id = length (invoices st), inv_orderId = String_id orderId,
               invoiceNo = next_invoiceNo c (invoices st), issuedAt = now_ms c,
               inv_status = ''issued'', createdAt = now_ms c\<rparr>],
          orders := (orders st)(String_id orderId \<mapsto>
             ord\<lparr>invoiceId := Some (length (invoices st))\<rparr>)\<rparr>)"
  using assms by (simp add: generateInvoice_def save_order_def Let_def)

lemma generate_twice:
  assumes "truthy orderId" and "orders st (String_id orderId) = Some ord"
  shows "generateInvoice c2 orderId (snd (generateInvoice c1 orderId st)) =
         generateInvoice c1 orderId st"
proof (cases "find (\<lambda>i. inv_orderId i = String_id orderId) (invoices st)")
  case (Some doc)
  from generate_existing[OF assms Some] show ?thesis by simp
next
  case None
  let ?doc = "\<lparr>inv_id = length (invoices st), inv_orderId = String_id orderId,
               invoiceNo = next_invoiceNo c1 (invoices st), issuedAt = now_ms c1,
               inv_status = ''issued'', createdAt = now_ms c1\<rparr>"
  let ?st1 = "snd (generateInvoice c1 orderId st)"
  have o: "orders ?st1 (String_id orderId) =
      Some (ord\<lparr>invoiceId := Some (length (invoices st))\<rparr>)"
    by (simp add: generate_new[OF assms None])
  have f: "find (\<lambda>i. inv_orderId i = String_id orderId) (invoices ?st1) = Some ?doc"
    by (simp add: generate_new[OF assms None] find_append_new[OF None])
  from generate_existing[OF assms(1) o f, of c2] show ?thesis
    by (simp add: generate_new[OF assms None])
qed

lemma generate_count:
  assumes "truthy orderId" and "orders st (String_id orderId) = Some ord"
  shows "length (filter (\<lambda>i. inv_orderId i = String_id orderId)
            (invoices (snd (generateInvoice c orderId st)))) =
         max 1 (length (filter (\<lambda>i. inv_orderId i = String_id orderId) (invoices st)))"
proof (cases "find (\<lambda>i. inv_orderId i = String_id orderId) (invoices st)")
  case (Some doc)
  then have "filter (\<lambda>i. inv_orderId i = String_id orderId) (invoices st) \<noteq> []"
    by (auto simp: find_Some_iff filter_empty_conv)
  then have "1 \<le> length (filter (\<lambda>i. inv_orderId i = String_id orderId) (invoices st))"
    by (cases "filter (\<lambda>i. inv_orderId i = String_id orderId) (invoices st)") auto
  with generate_existing[OF assms Some] show ?thesis by simp
next
  case None
  then have "filter (\<lambda>i. inv_orderId i = String_id orderId) (invoices st) = []"
    by (auto simp: find_None_iff filter_empty_conv)
  with generate_new[OF assms None] show ?thesis by simp
qed

text \<open>
  Claim C7, evaluated on the handler, on a server in India (UTC+05:30) with the orders
  o1, o2 and o3 and no invoice yet.
  \<^item> At 12:00 local time on 1 May 2024 (06:30 UTC) the invoice of o1 is issued with the
    number \<^verbatim>\<open>INV-20240501-0001\<close>. A later request for o1 is answered with the same
    invoice and changes nothing.
  \<^item> At 00:30 local time on 2 May (19:00 UTC on 1 May) the invoice of o2 is requested.
    The date that the handler prints is that of \<^verbatim>\<open>toISOString\<close>, 1 May in UTC, a day on
    which one invoice was issued already; the handler counts the invoices created since the
    local midnight, finds none, and issues \<^verbatim>\<open>INV-20240501-0001\<close> again.
  \<^item> At 06:00 local time on 2 May (00:30 UTC on 2 May) the invoice of o3 is requested.
    No invoice was issued on 2 May in UTC yet; the handler counts the invoice of o2, created
    since the local midnight, and issues \<^verbatim>\<open>INV-20240502-0002\<close>.
  So the number of a new invoice is not one more than the count of the invoices issued
  on the day that the number names, and two invoices carry the same number.
\<close>

theorem generateInvoice_number_repeats:
  "isoString india_noon = ''2024-05-01T06:30:00.000Z''
   \<and> fst (generateInvoice india_noon (Some ''o1'') shop2) = Inr (0, ''INV-20240501-0001'')
   \<and> generateInvoice india_past_midnight (Some ''o1'')
         (snd (generateInvoice india_noon (Some ''o1'') shop2)) =
       (Inr (0, ''INV-20240501-0001''), snd (generateInvoice india_noon (Some ''o1'') shop2))
   \<and> isoString india_past_midnight = ''2024-05-01T19:00:00.000Z''
   \<and> local_day 330 (now_ms india_past_midnight) = ''20240502''
   \<and> issued_on ''20240501''
        (invoices (snd (generateInvoice india_noon (Some ''o1'') shop2))) = 1
   \<and> countToday india_past_midnight
        (invoices (snd (generateInvoice india_noon (Some ''o1'') shop2))) = 0
   \<and> fst (generateInvoice india_past_midnight (Some ''o2'')
            (snd (generateInvoice india_noon (Some ''o1'') shop2))) =
       Inr (1, ''INV-20240501-0001'')
   \<and> isoString india_morning = ''2024-05-02T00:30:00.000Z''
   \<and> issued_on ''20240502''
        (invoices (snd (generateInvoice india_past_midnight (Some ''o2'')
            (snd (generateInvoice india_noon (Some ''o1'') shop2))))) = 0
   \<and> fst (generateInvoice india_morning (Some ''o3'')
            (snd (generateInvoice india_past_midnight (Some ''o2'')
              (snd (generateInvoice india_noon (Some ''o1'') shop2))))) =
       Inr (2, ''INV-20240502-0002'')
   \<and> map invoiceNo
        (invoices (snd (generateInvoice india_morning (Some ''o3'')
            (snd (generateInvoice india_past_midnight (Some ''o2'')
              (snd (generateInvoice india_noon (Some ''o1'') shop2))))))) =
       [''INV-20240501-0001'', ''INV-20240501-0001'', ''INV-20240502-0002'']"
proof -
  let ?st1 = "snd (generateInvoice india_noon (Some ''o1'') shop2)"
  let ?st2 = "snd (generateInvoice india_past_midnight (Some ''o2'') ?st1)"
  let ?i1 = "\<lparr>inv_id = 0, inv_orderId = ''o1'', invoiceNo = ''INV-20240501-0001'',
      issuedAt = 1714545000000, inv_status = ''issued'', createdAt = 1714545000000\<rparr>"
  let ?i2 = "\<lparr>inv_id = 1, inv_orderId = ''o2'', invoiceNo = ''INV-20240501-0001'',
      issuedAt = 1714590000000, inv_status = ''issued'', createdAt = 1714590000000\<rparr>"
  have n: "india_noon = \<lparr>now_ms = 1714545000000, isoString = ''2024-05-01T06:30:00.000Z'',
      dayStart = 1714501800000, nextDayStart = 1714588200000\<rparr>"
    by code_simp
  have m: "india_past_midnight = \<lparr>now_ms = 1714590000000,
      isoString = ''2024-05-01T19:00:00.000Z'',
      dayStart = 1714588200000, nextDayStart = 1714674600000\<rparr>"
    by code_simp
  have e: "india_morning = \<lparr>now_ms = 1714609800000,
      isoString = ''2024-05-02T00:30:00.000Z'',
      dayStart = 1714588200000, nextDayStart = 1714674600000\<rparr>"
    by code_simp
  have l: "local_day 330 1714590000000 = ''20240502''"
    by code_simp
  have u: "utc_day 1714545000000 = ''20240501'' \<and> utc_day 1714590000000 = ''20240501''"
    by code_simp
  have p: "padStart 4 (String_nat (Suc 0)) = ''0001''
      \<and> padStart 4 (String_nat (Suc (Suc 0))) = ''0002''"
    by code_simp
  have g1: "fst (generateInvoice india_noon (Some ''o1'') shop2) = Inr (0, ''INV-20240501-0001'')
      \<and> invoices ?st1 = [?i1]
      \<and> orders ?st1 ''o1'' = Some (order1\<lparr>invoiceId := Some 0\<rparr>)
      \<and> orders ?st1 ''o2'' = Some (order1\<lparr>userId := Some ''u2''\<rparr>)
      \<and> orders ?st1 ''o3'' = Some (order1\<lparr>userId := Some ''u2''\<rparr>)"
    by (simp add: n generateInvoice_def truthy_def String_id_def shop2_def shop_def
      next_invoiceNo_def dateStr_def countToday_def p save_order_def Let_def)
  have t1: "truthy (Some ''o1'')" and t2: "truthy (Some ''o2'')" and t3: "truthy (Some ''o3'')"
    by (simp_all add: truthy_def)
  have o1: "orders ?st1 (String_id (Some ''o1'')) = Some (order1\<lparr>invoiceId := Some 0\<rparr>)"
    by (simp add: g1 String_id_def)
  have f1: "find (\<lambda>i. inv_orderId i = String_id (Some ''o1'')) (invoices ?st1) = Some ?i1"
    by (simp add: g1 String_id_def)
  from generate_existing[OF t1 o1 f1, of india_past_midnight]
  have r1: "generateInvoice india_past_midnight (Some ''o1'') ?st1 =
      (Inr (0, ''INV-20240501-0001''), ?st1)"
    by simp
  have i1: "issued_on ''20240501'' (invoices ?st1) = 1"
    by (simp add: g1 issued_on_def u)
  have c1: "countToday india_past_midnight (invoices ?st1) = 0"
    by (simp add: g1 m countToday_def)
  have o2: "orders ?st1 (String_id (Some ''o2'')) = Some (order1\<lparr>userId := Some ''u2''\<rparr>)"
    by (simp add: g1 String_id_def)
  have f2: "find (\<lambda>i. inv_orderId i = String_id (Some ''o2'')) (invoices ?st1) = None"
    by (simp add: g1 String_id_def)
  have d2: "next_invoiceNo india_past_midnight (invoices ?st1) = ''INV-20240501-0001''"
    by (simp add: g1 m next_invoiceNo_def dateStr_def countToday_def p)
  from generate_new[OF t2 o2 f2, of india_past_midnight] d2
  have g2: "fst (generateInvoice india_past_midnight (Some ''o2'') ?st1) =
        Inr (1, ''INV-20240501-0001'')
      \<and> invoices ?st2 = [?i1, ?i2]
      \<and> orders ?st2 ''o3'' = Some (order1\<lparr>userId := Some ''u2''\<rparr>)"
    by (simp add: g1 m String_id_def)
  have i2: "issued_on ''20240502'' (invoices ?st2) = 0"
    by (simp add: g2 issued_on_def u)
  have o3: "orders ?st2 (String_id (Some ''o3'')) = Some (order1\<lparr>userId := Some ''u2''\<rparr>)"
    by (simp add: g2 String_id_def)
  have f3: "find (\<lambda>i. inv_orderId i = String_id (Some ''o3'')) (invoices ?st2) = None"
    by (simp add: g2 String_id_def)
  have d3: "next_invoiceNo india_morning (invoices ?st2) = ''INV-20240502-0002''"
    by (simp add: g2 e next_invoiceNo_def dateStr_def countToday_def p)
  from generate_new[OF t3 o3 f3, of india_morning] d3
  have g3: "fst (generateInvoice india_morning (Some ''o3'') ?st2) = Inr (2, ''INV-20240502-0002'')
      \<and> map invoiceNo (invoices (snd (generateInvoice india_morning (Some ''o3'') ?st2))) =
        [''INV-20240501-0001'', ''INV-20240501-0001'', ''INV-20240502-0002'']"
    by (simp add: g2)
  have a1: "isoString india_noon = ''2024-05-01T06:30:00.000Z''"
    by (simp add: n)
  have a2: "isoString india_past_midnight = ''2024-05-01T19:00:00.000Z''"
    by (simp add: m)
  have a3: "local_day 330 (now_ms india_past_midnight) = ''20240502''"
    by (simp add: m l)
  have a4: "isoString india_morning = ''2024-05-02T00:30:00.000Z''"
    by (simp add: e)
  from a1 a2 a3 a4 g1 r1 i1 c1 g2 i2 g3 show ?thesis by simp
qed

end
